theory Spec2Isabelle
  imports Main "HOL-Library.Word"
begin

section \<open>The values the macros of status\_macros.h work on\<close>

text \<open>
  Modelled from the spec: \<^verbatim>\<open>absl::Status\<close> is declared in
  \<^verbatim>\<open>absl/status/status.h\<close>, which the header includes and the sources do not
  hold. A Failure Descriptor is "no error" or a specific error with a code and a message.
  The canonical error codes are the sixteen codes other than OK, so a status that is not
  OK cannot carry the code OK.
\<close>

datatype ErrorCode =
    kCancelled | kUnknown | kInvalidArgument | kDeadlineExceeded | kNotFound
  | kAlreadyExists | kPermissionDenied | kResourceExhausted | kFailedPrecondition
  | kAborted | kOutOfRange | kUnimplemented | kInternal | kUnavailable | kDataLoss
  | kUnauthenticated

datatype Status = OkStatus | Error ErrorCode string

fun ok :: "Status \<Rightarrow> bool" where
  "ok OkStatus = True"
| "ok (Error c m) = False"

text \<open>
  Modelled from the spec: \<^verbatim>\<open>StatusOr<T>\<close>, the Fallible Expression Result, is a
  tagged union of a success payload and a Failure Descriptor. Its payload accessor is
  defined on success only: on a failure \<^verbatim>\<open>ValueOrDie()\<close> ends the process, which
  is the value \<open>None\<close> here.
\<close>

datatype 'a StatusOr = StatusOrValue 'a | StatusOrError ErrorCode string

fun StatusOr_ok :: "'a StatusOr \<Rightarrow> bool" where
  "StatusOr_ok (StatusOrValue v) = True"
| "StatusOr_ok (StatusOrError c m) = False"

fun StatusOr_status :: "'a StatusOr \<Rightarrow> Status" where
  "StatusOr_status (StatusOrValue v) = OkStatus"
| "StatusOr_status (StatusOrError c m) = Error c m"

fun ValueOrDie :: "'a StatusOr \<Rightarrow> 'a option" where
  "ValueOrDie (StatusOrValue v) = Some v"
| "ValueOrDie (StatusOrError c m) = None"

section \<open>Statements of an enclosing function\<close>

text \<open>
  The macros are statements: each one either falls through to the next statement, or
  returns a value from the enclosing function, or ends the process. The state they run in
  is the state \<open>'s\<close> that the caller's expressions read and write, paired with the log
  of the operations performed so far, one event for each call the macro text contains.
\<close>

datatype severity = INFO | WARNING | ERROR

datatype event =
    Evaluated            \<comment> \<open>the macro's argument expression was evaluated\<close>
  | CalledOk             \<comment> \<open>\<^verbatim>\<open>.ok()\<close>\<close>
  | CalledStatus         \<comment> \<open>\<^verbatim>\<open>.status()\<close>\<close>
  | CalledValueOrDie     \<comment> \<open>\<^verbatim>\<open>.ValueOrDie()\<close>, moved from\<close>
  | Assigned             \<comment> \<open>\<^verbatim>\<open>lhs = ...\<close>\<close>
  | BuilderCreated       \<comment> \<open>an Error Builder was constructed\<close>
  | Logged severity string  \<comment> \<open>a record reached the logging sink\<close>

datatype ('r, 'w) outcome = Continue 'w | Return 'r 'w | Fatal 'w

fun returned :: "('r, 'w) outcome \<Rightarrow> 'r option" where
  "returned (Continue w) = None"
| "returned (Return r w) = Some r"
| "returned (Fatal w) = None"

fun world_of :: "('r, 'w) outcome \<Rightarrow> 'w" where
  "world_of (Continue w) = w"
| "world_of (Return r w) = w"
| "world_of (Fatal w) = w"

definition vars_of :: "('r, 's \<times> event list) outcome \<Rightarrow> 's" where
  "vars_of out = fst (world_of out)"

definition trace_of :: "('r, 's \<times> event list) outcome \<Rightarrow> event list" where
  "trace_of out = snd (world_of out)"

fun falls_through :: "('r, 'w) outcome \<Rightarrow> bool" where
  "falls_through (Continue w) = True"
| "falls_through (Return r w) = False"
| "falls_through (Fatal w) = False"

fun dies :: "('r, 'w) outcome \<Rightarrow> bool" where
  "dies (Continue w) = False"
| "dies (Return r w) = False"
| "dies (Fatal w) = True"

text \<open>The statement that follows runs only when the first one falls through.\<close>

fun then_stmt :: "('r, 'w) outcome \<Rightarrow> ('w \<Rightarrow> ('r, 'w) outcome) \<Rightarrow> ('r, 'w) outcome" where
  "then_stmt (Continue w) next_stmt = next_stmt w"
| "then_stmt (Return r w) next_stmt = Return r w"
| "then_stmt (Fatal w) next_stmt = Fatal w"

text \<open>
  A \<^verbatim>\<open>return\<close> of a value of one type from a function declared with another goes
  through the implicit conversion of the declared return type.
\<close>

fun convert_return :: "('r \<Rightarrow> 'q) \<Rightarrow> ('r, 'w) outcome \<Rightarrow> ('q, 'w) outcome" where
  "convert_return conv (Continue w) = Continue w"
| "convert_return conv (Return r w) = Return (conv r) w"
| "convert_return conv (Fatal w) = Fatal w"

section \<open>The branch-prediction hints\<close>

text \<open>
  \<^verbatim>\<open>long __builtin_expect(long exp, long c)\<close> is the compiler's: its value is the
  value of \<open>exp\<close>, and \<open>c\<close> is the value the compiler is told to expect. \<^verbatim>\<open>long\<close>
  has 64 bits here.
\<close>

definition builtin_expect :: "64 word \<Rightarrow> 64 word \<Rightarrow> 64 word" where
  "builtin_expect exp c = exp"

text \<open>
  The header defines each hint twice and the preprocessor keeps one of the two:
  \<^verbatim>\<open>
  #if REVERB_HAS_BUILTIN(__builtin_expect) || (defined(__GNUC__) && __GNUC__ >= 3)
  #define REVERB_PREDICT_FALSE(x) (__builtin_expect(x, 0))
  #define REVERB_PREDICT_TRUE(x) (__builtin_expect(!!(x), 1))
  #else
  #define REVERB_PREDICT_FALSE(x) (x)
  #define REVERB_PREDICT_TRUE(x) (x)
  #endif
  \<close>
  \<open>has_builtin\<close> is the value of the \<^verbatim>\<open>#if\<close> condition. The argument is a
  \<^verbatim>\<open>bool\<close>, as at both uses in the header; the builtin takes it converted to
  \<^verbatim>\<open>long\<close>, and the \<^verbatim>\<open>if\<close> around the hint tests the result against zero.
\<close>

definition REVERB_PREDICT_FALSE :: "bool \<Rightarrow> bool \<Rightarrow> bool" where
  "REVERB_PREDICT_FALSE has_builtin x =
     (if has_builtin then builtin_expect (of_bool x) 0 \<noteq> 0 else x)"

definition REVERB_PREDICT_TRUE :: "bool \<Rightarrow> bool \<Rightarrow> bool" where
  "REVERB_PREDICT_TRUE has_builtin x =
     (if has_builtin then builtin_expect (of_bool (\<not> \<not> x)) 1 \<noteq> 0 else x)"

section \<open>The propagation macros\<close>

text \<open>
  \<^verbatim>\<open>
  #define REVERB_RETURN_IF_ERROR(...)                      \
    do {                                                   \
      ::absl::Status _status = (__VA_ARGS__);                  \
      if (REVERB_PREDICT_FALSE(!_status.ok())) return _status; \
    } while (0)
  \<close>
  The argument is an expression of the caller's: evaluating it gives a status and may
  change the caller's state.
\<close>

definition REVERB_RETURN_IF_ERROR ::
  "bool \<Rightarrow> ('s \<Rightarrow> Status \<times> 's) \<Rightarrow> 's \<times> event list \<Rightarrow> (Status, 's \<times> event list) outcome" where
  "REVERB_RETURN_IF_ERROR has_builtin expr w =
     (case w of (s, tr) \<Rightarrow>
        (case expr s of (status_, s') \<Rightarrow>
           if REVERB_PREDICT_FALSE has_builtin (\<not> ok status_)
           then Return status_ (s', tr @ [Evaluated, CalledOk])
           else Continue (s', tr @ [Evaluated, CalledOk])))"

text \<open>
  \<^verbatim>\<open>
  #define REVERB_ASSIGN_OR_RETURN_IMPL(statusor, lhs, rexpr) \
    auto statusor = (rexpr);                             \
    if (REVERB_PREDICT_FALSE(!statusor.ok())) {              \
      return statusor.status();                          \
    }                                                    \
    lhs = std::move(statusor.ValueOrDie())
  \<close>
  The first parameter is the name of the temporary, which is the bound variable
  \<open>statusor\<close> below. \<open>lhs\<close> is the destination: \<open>lhs v s\<close> is the state after the
  destination has been evaluated in \<open>s\<close> and \<open>v\<close> stored in it.
\<close>

definition REVERB_ASSIGN_OR_RETURN_IMPL ::
  "bool \<Rightarrow> ('a \<Rightarrow> 's \<Rightarrow> 's) \<Rightarrow> ('s \<Rightarrow> 'a StatusOr \<times> 's) \<Rightarrow> 's \<times> event list
     \<Rightarrow> (Status, 's \<times> event list) outcome" where
  "REVERB_ASSIGN_OR_RETURN_IMPL has_builtin lhs rexpr w =
     (case w of (s, tr) \<Rightarrow>
        (case rexpr s of (statusor, s1) \<Rightarrow>
           if REVERB_PREDICT_FALSE has_builtin (\<not> StatusOr_ok statusor)
           then Return (StatusOr_status statusor) (s1, tr @ [Evaluated, CalledOk, CalledStatus])
           else (case ValueOrDie statusor of
                   None \<Rightarrow> Fatal (s1, tr @ [Evaluated, CalledOk, CalledValueOrDie])
                 | Some v \<Rightarrow>
                     Continue (lhs v s1, tr @ [Evaluated, CalledOk, CalledValueOrDie, Assigned]))))"

text \<open>
  \<^verbatim>\<open>
  #define REVERB_CHECK_OK(val) CHECK_EQ(::absl::OkStatus(), (val))
  \<close>
  Modelled from the spec: \<^verbatim>\<open>CHECK_EQ\<close> is the logging library's macro and is not
  part of the sources. It is the fatal-assertion reporter for unconditional equality
  checks: it compares its two arguments, falls through when they are equal and ends the
  process when they are not.
\<close>

definition CHECK_EQ :: "'v \<Rightarrow> 'v \<Rightarrow> 'w \<Rightarrow> ('r, 'w) outcome" where
  "CHECK_EQ a b w = (if a = b then Continue w else Fatal w)"

definition REVERB_CHECK_OK ::
  "('s \<Rightarrow> Status \<times> 's) \<Rightarrow> 's \<times> event list \<Rightarrow> ('r, 's \<times> event list) outcome" where
  "REVERB_CHECK_OK val w =
     (case w of (s, tr) \<Rightarrow>
        (case val s of (v, s') \<Rightarrow> CHECK_EQ OkStatus v (s', tr @ [Evaluated])))"

section \<open>Call sites\<close>

text \<open>
  The destination of the header's first two examples, a new binding or an existing
  variable: the state is the variable, and the assignment replaces its value.
\<close>

definition assign_variable :: "'a \<Rightarrow> 'a \<Rightarrow> 'a" where
  "assign_variable payload old = payload"

text \<open>
  An expression that counts its own evaluations in the caller's state and yields
  \<open>r\<close> each time.
\<close>

definition counting :: "'v \<Rightarrow> nat \<Rightarrow> 'v \<times> nat" where
  "counting r n = (r, Suc n)"

text \<open>
  Scenario 8 of the specification's testable properties: a function that extracts the
  payload of \<open>r\<close> into a new binding \<open>v\<close> and then returns \<open>v + 1\<close>,
  \<^verbatim>\<open>
    REVERB_ASSIGN_OR_RETURN_IMPL(statusor, int v, r);
    return v + 1;
  \<close>
  The scenario names no integer type, so \<open>v\<close> is an integer. The function returns either
  the status that the macro returns (\<open>Inl\<close>) or a number (\<open>Inr\<close>).
\<close>

definition extract_then_increment ::
  "bool \<Rightarrow> int StatusOr \<Rightarrow> int \<times> event list \<Rightarrow> (Status + int, int \<times> event list) outcome" where
  "extract_then_increment has_builtin r w =
     then_stmt
       (convert_return Inl (REVERB_ASSIGN_OR_RETURN_IMPL has_builtin assign_variable (Pair r) w))
       (\<lambda>w'. case w' of (v, tr) \<Rightarrow> Return (Inr (v + 1)) (v, tr))"

section \<open>The operations as the specification words them\<close>

text \<open>
  Modelled from the spec: the Error Builder (the \<^verbatim>\<open>internal::StatusBuilder\<close> of the
  header's comments) is defined nowhere in the sources. It owns one Failure Descriptor,
  never a success value; each chained augmentation changes the held message or emits a
  log record and gives the builder back; at the point of consumption the builder converts
  to the plain Failure Descriptor. Appending context \<open>ctx\<close> to the message \<open>m\<close> gives
  \<open>m; ctx\<close> (scenario 7 of the testable properties).
\<close>

datatype ErrorBuilder = Builder ErrorCode string

datatype augmentation = AppendContext string | LogAt severity

fun builder_status :: "ErrorBuilder \<Rightarrow> Status" where
  "builder_status (Builder c m) = Error c m"

fun augment :: "augmentation \<Rightarrow> ErrorBuilder \<times> event list \<Rightarrow> ErrorBuilder \<times> event list" where
  "augment (AppendContext ctx) (Builder c m, tr) = (Builder c (m @ ''; '' @ ctx), tr)"
| "augment (LogAt sev) (Builder c m, tr) = (Builder c m, tr @ [Logged sev m])"

text \<open>A chain of augmentations, applied in source order, and then the conversion.\<close>

definition chained :: "augmentation list \<Rightarrow> ErrorBuilder \<times> event list \<Rightarrow> Status \<times> event list" where
  "chained augs bt = (case fold augment augs bt of (b, tr) \<Rightarrow> (builder_status b, tr))"

text \<open>
  Short-Circuit Propagation as section 4.2 of the specification words it: on success the
  result is discarded; on failure the failure is wrapped in an Error Builder, the
  augmentations chained after the operation are applied to the builder, and the converted
  builder is the return value of the enclosing function.
\<close>

definition spec_short_circuit ::
  "augmentation list \<Rightarrow> ('s \<Rightarrow> Status \<times> 's) \<Rightarrow> 's \<times> event list
     \<Rightarrow> (Status, 's \<times> event list) outcome" where
  "spec_short_circuit augs expr w =
     (case w of (s, tr) \<Rightarrow>
        (case expr s of (r, s') \<Rightarrow>
           (case r of
              OkStatus \<Rightarrow> Continue (s', tr @ [Evaluated])
            | Error c m \<Rightarrow>
                (case chained augs (Builder c m, tr @ [Evaluated, BuilderCreated]) of
                   (st, tr') \<Rightarrow> Return st (s', tr')))))"

text \<open>
  Value-Extraction Propagation as section 4.3 of the specification words it: on success
  the payload goes into the destination; on failure the destination is left alone, and
  the function returns the failure (through an Error Builder) when no error expression
  was supplied, and otherwise the result of the error expression, evaluated with the
  placeholder bound to an Error Builder over the failure.
\<close>

definition spec_value_extraction ::
  "(ErrorBuilder \<times> event list \<Rightarrow> Status \<times> event list) option \<Rightarrow> ('a \<Rightarrow> 's \<Rightarrow> 's)
     \<Rightarrow> ('s \<Rightarrow> 'a StatusOr \<times> 's) \<Rightarrow> 's \<times> event list \<Rightarrow> (Status, 's \<times> event list) outcome" where
  "spec_value_extraction error_expression lhs rexpr w =
     (case w of (s, tr) \<Rightarrow>
        (case rexpr s of (r, s1) \<Rightarrow>
           (case r of
              StatusOrValue v \<Rightarrow> Continue (lhs v s1, tr @ [Evaluated, Assigned])
            | StatusOrError c m \<Rightarrow>
                (case error_expression of
                   None \<Rightarrow>
                     (case chained [] (Builder c m, tr @ [Evaluated, BuilderCreated]) of
                        (st, tr') \<Rightarrow> Return st (s1, tr'))
                 | Some e \<Rightarrow>
                     (case e (Builder c m, tr @ [Evaluated, BuilderCreated]) of
                        (st, tr') \<Rightarrow> Return st (s1, tr'))))))"

section \<open>The hints change nothing\<close>

lemma REVERB_PREDICT_FALSE_id [simp]: "REVERB_PREDICT_FALSE has_builtin x = x"
  by (cases x) (simp_all add: REVERB_PREDICT_FALSE_def builtin_expect_def)

lemma REVERB_PREDICT_TRUE_id [simp]: "REVERB_PREDICT_TRUE has_builtin x = x"
  by (cases x) (simp_all add: REVERB_PREDICT_TRUE_def builtin_expect_def)

text \<open>
  C8. The branch-prediction hint has no meaning of its own: for every boolean condition
  \<open>x\<close>, \<^verbatim>\<open>REVERB_PREDICT_FALSE(x)\<close> decides as \<open>x\<close> does and
  \<^verbatim>\<open>REVERB_PREDICT_TRUE(x)\<close> as \<^verbatim>\<open>!!x\<close> does under either expansion, the two
  expansions of each hint agree, and both propagation macros are the same statements
  whether the hints expand to \<^verbatim>\<open>__builtin_expect\<close> or to the plain fallback.
\<close>

theorem branch_hints_carry_no_meaning:
  "REVERB_PREDICT_FALSE has_builtin x = x
   \<and> REVERB_PREDICT_TRUE has_builtin x = (\<not> \<not> x)
   \<and> REVERB_PREDICT_FALSE True x = REVERB_PREDICT_FALSE False x
   \<and> REVERB_PREDICT_TRUE True x = REVERB_PREDICT_TRUE False x
   \<and> REVERB_RETURN_IF_ERROR True expr w = REVERB_RETURN_IF_ERROR False expr w
   \<and> REVERB_ASSIGN_OR_RETURN_IMPL True lhs rexpr w = REVERB_ASSIGN_OR_RETURN_IMPL False lhs rexpr w"
  by (simp add: REVERB_RETURN_IF_ERROR_def REVERB_ASSIGN_OR_RETURN_IMPL_def)

section \<open>Short-circuit propagation\<close>

lemma REVERB_RETURN_IF_ERROR_unfold:
  "expr s = (st, s') \<Longrightarrow>
   REVERB_RETURN_IF_ERROR has_builtin expr (s, tr) =
     (if ok st then Continue (s', tr @ [Evaluated, CalledOk])
      else Return st (s', tr @ [Evaluated, CalledOk]))"
  by (simp add: REVERB_RETURN_IF_ERROR_def)

text \<open>
  C4. \<^verbatim>\<open>REVERB_RETURN_IF_ERROR\<close> evaluates its expression exactly once: the state it
  leaves is the state after one evaluation, and the log gains one evaluation. On a success
  result it falls through to the next statement with nothing else changed and no Error
  Builder made; on a failure result the enclosing function returns that failure.
\<close>

theorem REVERB_RETURN_IF_ERROR_evaluates_once:
  assumes "expr s = (st, s')"
  shows "REVERB_RETURN_IF_ERROR has_builtin expr (s, tr) =
           (if ok st then Continue (s', tr @ [Evaluated, CalledOk])
            else Return st (s', tr @ [Evaluated, CalledOk]))
         \<and> vars_of (REVERB_RETURN_IF_ERROR has_builtin expr (s, tr)) = s'
         \<and> count_list (trace_of (REVERB_RETURN_IF_ERROR has_builtin expr (s, tr))) Evaluated
             = Suc (count_list tr Evaluated)
         \<and> count_list (trace_of (REVERB_RETURN_IF_ERROR has_builtin expr (s, tr))) BuilderCreated
             = count_list tr BuilderCreated
         \<and> then_stmt (REVERB_RETURN_IF_ERROR has_builtin expr (s, tr)) next_stmt =
             (if ok st then next_stmt (s', tr @ [Evaluated, CalledOk])
              else Return st (s', tr @ [Evaluated, CalledOk]))"
  using assms by (simp add: REVERB_RETURN_IF_ERROR_unfold vars_of_def trace_of_def)

theorem REVERB_RETURN_IF_ERROR_evaluates_once_witness:
  "REVERB_RETURN_IF_ERROR True (counting OkStatus) (0, []) = Continue (1, [Evaluated, CalledOk])
   \<and> REVERB_RETURN_IF_ERROR False (counting (Error kNotFound ''x'')) (0, [])
       = Return (Error kNotFound ''x'') (1, [Evaluated, CalledOk])"
  using REVERB_RETURN_IF_ERROR_evaluates_once [of "counting OkStatus" 0 OkStatus 1 True "[]"]
    REVERB_RETURN_IF_ERROR_evaluates_once
      [of "counting (Error kNotFound ''x'')" 0 "Error kNotFound ''x''" 1 False "[]"]
  by (simp add: counting_def)

text \<open>
  C9. On a failure result each macro returns the failure descriptor that the fallible
  expression produced, as it is: the returned status is the input failure, the state is
  the one the expression left, and the macro itself makes no Error Builder and writes no
  log record.
\<close>

theorem failure_is_returned_unchanged:
  assumes "expr s = (st, s')" and "\<not> ok st"
    and "rexpr s = (statusor, s1)" and "\<not> StatusOr_ok statusor"
  shows "returned (REVERB_RETURN_IF_ERROR has_builtin expr (s, tr)) = Some st
         \<and> world_of (REVERB_RETURN_IF_ERROR has_builtin expr (s, tr))
             = (s', tr @ [Evaluated, CalledOk])
         \<and> returned (REVERB_ASSIGN_OR_RETURN_IMPL has_builtin lhs rexpr (s, tr))
             = Some (StatusOr_status statusor)
         \<and> world_of (REVERB_ASSIGN_OR_RETURN_IMPL has_builtin lhs rexpr (s, tr))
             = (s1, tr @ [Evaluated, CalledOk, CalledStatus])
         \<and> count_list (trace_of (REVERB_RETURN_IF_ERROR has_builtin expr (s, tr))) BuilderCreated
             = count_list tr BuilderCreated
         \<and> count_list (trace_of (REVERB_ASSIGN_OR_RETURN_IMPL has_builtin lhs rexpr (s, tr)))
               BuilderCreated
             = count_list tr BuilderCreated
         \<and> count_list (trace_of (REVERB_RETURN_IF_ERROR has_builtin expr (s, tr))) (Logged sev msg)
             = count_list tr (Logged sev msg)
         \<and> count_list (trace_of (REVERB_ASSIGN_OR_RETURN_IMPL has_builtin lhs rexpr (s, tr)))
               (Logged sev msg)
             = count_list tr (Logged sev msg)"
  using assms
  by (simp add: REVERB_RETURN_IF_ERROR_unfold REVERB_ASSIGN_OR_RETURN_IMPL_def trace_of_def)

theorem failure_is_returned_unchanged_witness:
  "returned (REVERB_RETURN_IF_ERROR True (Pair (Error kNotFound ''x'')) ((7::int), []))
     = Some (Error kNotFound ''x'')
   \<and> returned (REVERB_ASSIGN_OR_RETURN_IMPL True assign_variable
        (Pair (StatusOrError kDataLoss ''y'')) ((7::int), []))
     = Some (Error kDataLoss ''y'')"
  using failure_is_returned_unchanged
    [of "Pair (Error kNotFound ''x'')" "7::int" "Error kNotFound ''x''" 7
        "Pair (StatusOrError kDataLoss ''y'')" "StatusOrError kDataLoss ''y''" 7
        True "[]" assign_variable]
  by simp

section \<open>Value-extraction propagation\<close>

lemma REVERB_ASSIGN_OR_RETURN_IMPL_failure:
  "rexpr s = (StatusOrError c m, s1) \<Longrightarrow>
   REVERB_ASSIGN_OR_RETURN_IMPL has_builtin lhs rexpr (s, tr) =
     Return (Error c m) (s1, tr @ [Evaluated, CalledOk, CalledStatus])"
  by (simp add: REVERB_ASSIGN_OR_RETURN_IMPL_def)

lemma REVERB_ASSIGN_OR_RETURN_IMPL_success:
  "rexpr s = (StatusOrValue v, s1) \<Longrightarrow>
   REVERB_ASSIGN_OR_RETURN_IMPL has_builtin lhs rexpr (s, tr) =
     Continue (lhs v s1, tr @ [Evaluated, CalledOk, CalledValueOrDie, Assigned])"
  by (simp add: REVERB_ASSIGN_OR_RETURN_IMPL_def)

text \<open>
  C3. On a failure result \<^verbatim>\<open>REVERB_ASSIGN_OR_RETURN_IMPL\<close> never evaluates and never
  writes the destination: the enclosing function returns, in the state the fallible
  expression left, with no assignment logged, whatever the destination is.
\<close>

theorem failure_leaves_destination_untouched:
  assumes "rexpr s = (StatusOrError c m, s1)"
  shows "REVERB_ASSIGN_OR_RETURN_IMPL has_builtin lhs rexpr (s, tr)
           = Return (Error c m) (s1, tr @ [Evaluated, CalledOk, CalledStatus])
         \<and> vars_of (REVERB_ASSIGN_OR_RETURN_IMPL has_builtin lhs rexpr (s, tr)) = s1
         \<and> count_list (trace_of (REVERB_ASSIGN_OR_RETURN_IMPL has_builtin lhs rexpr (s, tr)))
               Assigned
             = count_list tr Assigned
         \<and> REVERB_ASSIGN_OR_RETURN_IMPL has_builtin lhs rexpr (s, tr)
             = REVERB_ASSIGN_OR_RETURN_IMPL has_builtin lhs' rexpr (s, tr)"
  using assms by (simp add: REVERB_ASSIGN_OR_RETURN_IMPL_failure vars_of_def trace_of_def)

theorem failure_leaves_destination_untouched_witness:
  "REVERB_ASSIGN_OR_RETURN_IMPL True assign_variable (Pair (StatusOrError kNotFound ''x''))
     ((7::int), [])
     = Return (Error kNotFound ''x'') (7, [Evaluated, CalledOk, CalledStatus])"
  using failure_leaves_destination_untouched
    [of "Pair (StatusOrError kNotFound ''x'')" "7::int" kNotFound "''x''" 7
        True assign_variable "[]"]
  by simp

text \<open>
  C5. On a success result \<^verbatim>\<open>REVERB_ASSIGN_OR_RETURN_IMPL\<close> stores the payload in the
  destination and execution goes on with the next statement; in particular, extracting
  the payload 42 into a new binding \<open>v\<close> and then returning \<open>v + 1\<close> makes the
  enclosing function return 43.
\<close>

theorem success_binds_payload_and_continues:
  assumes "rexpr s = (StatusOrValue v, s1)"
  shows "REVERB_ASSIGN_OR_RETURN_IMPL has_builtin lhs rexpr (s, tr)
           = Continue (lhs v s1, tr @ [Evaluated, CalledOk, CalledValueOrDie, Assigned])
         \<and> then_stmt (REVERB_ASSIGN_OR_RETURN_IMPL has_builtin lhs rexpr (s, tr)) next_stmt
             = next_stmt (lhs v s1, tr @ [Evaluated, CalledOk, CalledValueOrDie, Assigned])
         \<and> vars_of (REVERB_ASSIGN_OR_RETURN_IMPL has_builtin assign_variable (Pair (StatusOrValue v))
               (old, tr)) = v
         \<and> returned (extract_then_increment has_builtin (StatusOrValue 42) (v0, tr))
             = Some (Inr 43)"
  using assms
  by (simp add: REVERB_ASSIGN_OR_RETURN_IMPL_success extract_then_increment_def
      assign_variable_def vars_of_def)

theorem success_binds_payload_and_continues_witness:
  "REVERB_ASSIGN_OR_RETURN_IMPL False assign_variable (Pair (StatusOrValue (42::int))) (0, [])
     = Continue (42, [Evaluated, CalledOk, CalledValueOrDie, Assigned])
   \<and> returned (extract_then_increment False (StatusOrValue 42) (0, [])) = Some (Inr 43)"
  using success_binds_payload_and_continues
    [of "Pair (StatusOrValue (42::int))" 0 42 0 False assign_variable "[]"]
  by (simp add: assign_variable_def)

text \<open>
  C6. The payload of the result is moved out exactly once on the success path and not at
  all on the failure path: on a success the macro calls \<^verbatim>\<open>ValueOrDie()\<close> once,
  assigns the payload and falls through; on a failure it returns the failure's status
  from the enclosing function before the accessor and the assignment, so the accessor is
  never reached, the next statement does not run and the macro never ends the process.
\<close>

theorem payload_moved_once_on_success_only:
  assumes "rexpr s = (statusor, s1)"
  shows "REVERB_ASSIGN_OR_RETURN_IMPL has_builtin lhs rexpr (s, tr)
           = (case ValueOrDie statusor of
                Some v \<Rightarrow>
                  Continue (lhs v s1, tr @ [Evaluated, CalledOk, CalledValueOrDie, Assigned])
              | None \<Rightarrow>
                  Return (StatusOr_status statusor) (s1, tr @ [Evaluated, CalledOk, CalledStatus]))
         \<and> returned (REVERB_ASSIGN_OR_RETURN_IMPL has_builtin lhs rexpr (s, tr))
             = (if StatusOr_ok statusor then None else Some (StatusOr_status statusor))
         \<and> falls_through (REVERB_ASSIGN_OR_RETURN_IMPL has_builtin lhs rexpr (s, tr))
             = StatusOr_ok statusor
         \<and> then_stmt (REVERB_ASSIGN_OR_RETURN_IMPL has_builtin lhs rexpr (s, tr)) next_stmt
             = (if StatusOr_ok statusor
                then next_stmt
                  (world_of (REVERB_ASSIGN_OR_RETURN_IMPL has_builtin lhs rexpr (s, tr)))
                else Return (StatusOr_status statusor)
                  (s1, tr @ [Evaluated, CalledOk, CalledStatus]))
         \<and> trace_of (REVERB_ASSIGN_OR_RETURN_IMPL has_builtin lhs rexpr (s, tr))
             = tr @ (if StatusOr_ok statusor
                     then [Evaluated, CalledOk, CalledValueOrDie, Assigned]
                     else [Evaluated, CalledOk, CalledStatus])
         \<and> count_list (trace_of (REVERB_ASSIGN_OR_RETURN_IMPL has_builtin lhs rexpr (s, tr)))
               CalledValueOrDie
             = count_list tr CalledValueOrDie + (if StatusOr_ok statusor then 1 else 0)
         \<and> count_list (trace_of (REVERB_ASSIGN_OR_RETURN_IMPL has_builtin lhs rexpr (s, tr)))
               Assigned
             = count_list tr Assigned + (if StatusOr_ok statusor then 1 else 0)
         \<and> dies (REVERB_ASSIGN_OR_RETURN_IMPL has_builtin lhs rexpr (s, tr)) = False
         \<and> vars_of (REVERB_ASSIGN_OR_RETURN_IMPL has_builtin lhs rexpr (s, tr))
             = (case ValueOrDie statusor of Some v \<Rightarrow> lhs v s1 | None \<Rightarrow> s1)"
proof (cases statusor)
  case (StatusOrValue v)
  with assms show ?thesis
    by (simp add: REVERB_ASSIGN_OR_RETURN_IMPL_success vars_of_def trace_of_def)
next
  case (StatusOrError c m)
  with assms show ?thesis
    by (simp add: REVERB_ASSIGN_OR_RETURN_IMPL_failure vars_of_def trace_of_def)
qed

theorem payload_moved_once_on_success_only_witness:
  "REVERB_ASSIGN_OR_RETURN_IMPL True assign_variable (Pair (StatusOrValue (42::int))) (0, [])
     = Continue (42, [Evaluated, CalledOk, CalledValueOrDie, Assigned])
   \<and> count_list (trace_of (REVERB_ASSIGN_OR_RETURN_IMPL True assign_variable
        (Pair (StatusOrValue (42::int))) (0, []))) CalledValueOrDie = 1
   \<and> REVERB_ASSIGN_OR_RETURN_IMPL True assign_variable
        (Pair (StatusOrError kNotFound ''x'')) ((0::int), [])
     = Return (Error kNotFound ''x'') (0, [Evaluated, CalledOk, CalledStatus])
   \<and> count_list (trace_of (REVERB_ASSIGN_OR_RETURN_IMPL True assign_variable
        (Pair (StatusOrError kNotFound ''x'')) ((0::int), []))) CalledValueOrDie = 0"
  using payload_moved_once_on_success_only
    [where rexpr = "Pair (StatusOrValue (42::int))" and s = 0
       and statusor = "StatusOrValue 42" and ?s1.0 = 0 and has_builtin = True
       and lhs = assign_variable and tr = "[]" and next_stmt = Continue]
    payload_moved_once_on_success_only
    [where rexpr = "Pair (StatusOrError kNotFound ''x'')" and s = "0::int"
       and statusor = "StatusOrError kNotFound ''x''" and ?s1.0 = 0 and has_builtin = True
       and lhs = assign_variable and tr = "[]" and next_stmt = Continue]
  by (auto simp add: assign_variable_def)

section \<open>Failures always leave the function\<close>

text \<open>
  C7. Neither macro swallows a failure: on a failure result each one returns from the
  enclosing function at once, and what it returns is that failure; no statement after it
  runs; the state is the one that a single evaluation of the fallible expression left, so
  the expression is not tried again; and the destination of the extraction holds no
  substituted value, whatever the destination is.
\<close>

theorem failures_are_never_swallowed:
  assumes "expr s = (Error c m, s')" and "rexpr s = (StatusOrError c2 m2, s2)"
  shows "REVERB_RETURN_IF_ERROR has_builtin expr (s, tr)
           = Return (Error c m) (s', tr @ [Evaluated, CalledOk])
         \<and> REVERB_ASSIGN_OR_RETURN_IMPL has_builtin lhs rexpr (s, tr)
             = Return (Error c2 m2) (s2, tr @ [Evaluated, CalledOk, CalledStatus])
         \<and> returned (REVERB_RETURN_IF_ERROR has_builtin expr (s, tr)) = Some (Error c m)
         \<and> returned (REVERB_ASSIGN_OR_RETURN_IMPL has_builtin lhs rexpr (s, tr))
             = Some (Error c2 m2)
         \<and> then_stmt (REVERB_RETURN_IF_ERROR has_builtin expr (s, tr)) next_stmt
             = Return (Error c m) (s', tr @ [Evaluated, CalledOk])
         \<and> then_stmt (REVERB_ASSIGN_OR_RETURN_IMPL has_builtin lhs rexpr (s, tr)) next_stmt
             = Return (Error c2 m2) (s2, tr @ [Evaluated, CalledOk, CalledStatus])
         \<and> vars_of (REVERB_RETURN_IF_ERROR has_builtin expr (s, tr)) = s'
         \<and> REVERB_ASSIGN_OR_RETURN_IMPL has_builtin lhs rexpr (s, tr)
             = REVERB_ASSIGN_OR_RETURN_IMPL has_builtin lhs' rexpr (s, tr)
         \<and> falls_through (REVERB_RETURN_IF_ERROR has_builtin expr (s, tr)) = False
         \<and> falls_through (REVERB_ASSIGN_OR_RETURN_IMPL has_builtin lhs rexpr (s, tr)) = False
         \<and> returned (REVERB_RETURN_IF_ERROR has_builtin expr (s, tr)) \<noteq> None
         \<and> returned (REVERB_ASSIGN_OR_RETURN_IMPL has_builtin lhs rexpr (s, tr)) \<noteq> None
         \<and> then_stmt (REVERB_RETURN_IF_ERROR has_builtin expr (s, tr)) next_stmt
             = REVERB_RETURN_IF_ERROR has_builtin expr (s, tr)
         \<and> then_stmt (REVERB_ASSIGN_OR_RETURN_IMPL has_builtin lhs rexpr (s, tr)) next_stmt
             = REVERB_ASSIGN_OR_RETURN_IMPL has_builtin lhs rexpr (s, tr)
         \<and> count_list (trace_of (REVERB_RETURN_IF_ERROR has_builtin expr (s, tr))) Evaluated
             = Suc (count_list tr Evaluated)
         \<and> count_list (trace_of (REVERB_ASSIGN_OR_RETURN_IMPL has_builtin lhs rexpr (s, tr)))
               Evaluated
             = Suc (count_list tr Evaluated)
         \<and> vars_of (REVERB_ASSIGN_OR_RETURN_IMPL has_builtin lhs rexpr (s, tr)) = s2"
  using assms
  by (simp add: REVERB_RETURN_IF_ERROR_unfold REVERB_ASSIGN_OR_RETURN_IMPL_failure
      vars_of_def trace_of_def)

theorem failures_are_never_swallowed_witness:
  "then_stmt (REVERB_RETURN_IF_ERROR True (counting (Error kUnavailable ''down'')) (0, []))
       (REVERB_RETURN_IF_ERROR True (counting OkStatus))
     = Return (Error kUnavailable ''down'') (1, [Evaluated, CalledOk])
   \<and> then_stmt (REVERB_ASSIGN_OR_RETURN_IMPL True assign_variable
          (Pair (StatusOrError kUnavailable ''down'')) (0, []))
        (REVERB_RETURN_IF_ERROR True (counting OkStatus))
     = Return (Error kUnavailable ''down'') (0, [Evaluated, CalledOk, CalledStatus])"
  using failures_are_never_swallowed
    [where expr = "counting (Error kUnavailable ''down'')" and s = 0
       and c = kUnavailable and m = "''down''" and s' = 1
       and rexpr = "Pair (StatusOrError kUnavailable ''down'')"
       and ?c2.0 = kUnavailable and ?m2.0 = "''down''" and ?s2.0 = 0
       and has_builtin = True and tr = "[]" and lhs = assign_variable
       and next_stmt = "REVERB_RETURN_IF_ERROR True (counting OkStatus)"]
  by (auto simp add: counting_def)

section \<open>The fatal check\<close>

text \<open>
  C10. \<^verbatim>\<open>REVERB_CHECK_OK(val)\<close> is a fatal assertion that passes exactly when
  \<open>val\<close> equals \<^verbatim>\<open>absl::OkStatus()\<close>: on every ok status the program goes on in
  the state that evaluating \<open>val\<close> left, and on every other status the process ends and
  nothing is returned to the caller.
\<close>

theorem REVERB_CHECK_OK_passes_iff_ok:
  assumes "val s = (st, s')"
  shows "(REVERB_CHECK_OK val (s, tr) :: ('r, 's \<times> event list) outcome)
           = (if st = OkStatus then Continue (s', tr @ [Evaluated])
              else Fatal (s', tr @ [Evaluated]))
         \<and> falls_through (REVERB_CHECK_OK val (s, tr) :: ('r, 's \<times> event list) outcome) = ok st
         \<and> dies (REVERB_CHECK_OK val (s, tr) :: ('r, 's \<times> event list) outcome) = (\<not> ok st)
         \<and> returned (REVERB_CHECK_OK val (s, tr) :: ('r, 's \<times> event list) outcome) = None
         \<and> vars_of (REVERB_CHECK_OK val (s, tr) :: ('r, 's \<times> event list) outcome) = s'"
  using assms by (cases st) (simp_all add: REVERB_CHECK_OK_def CHECK_EQ_def vars_of_def)

theorem REVERB_CHECK_OK_passes_iff_ok_witness:
  "(REVERB_CHECK_OK (Pair OkStatus) ((7::int), []) :: (unit, int \<times> event list) outcome)
     = Continue (7, [Evaluated])
   \<and> (REVERB_CHECK_OK (Pair (Error kInternal ''bad'')) ((7::int), [])
        :: (unit, int \<times> event list) outcome)
     = Fatal (7, [Evaluated])"
  using REVERB_CHECK_OK_passes_iff_ok [of "Pair OkStatus" "7::int" OkStatus 7 "[]",
      where 'r = unit]
    REVERB_CHECK_OK_passes_iff_ok
      [of "Pair (Error kInternal ''bad'')" "7::int" "Error kInternal ''bad''" 7 "[]",
       where 'r = unit]
  by simp

section \<open>The macros against the documented operations\<close>

lemma chained_Nil [simp]: "chained [] (Builder c m, tr) = (Error c m, tr)"
  by (simp add: chained_def)

lemma chained_AppendContext [simp]:
  "chained [AppendContext ctx] (Builder c m, tr) = (Error c (m @ ''; '' @ ctx), tr)"
  by (simp add: chained_def)

text \<open>
  C1. The claim, and the header's own comment on \<^verbatim>\<open>REVERB_RETURN_IF_ERROR\<close>
  ("The macro ends with an \<^verbatim>\<open>internal::StatusBuilder\<close> which allows the returned
  status to be extended with more details", with the use
  \<^verbatim>\<open>REVERB_RETURN_IF_ERROR(Function(args...)) << "in MultiStepFunction"\<close>), have a
  failure wrapped in an Error Builder that is the return value, so that an augmentation
  chained after the operation reaches the returned failure. The macro does not do this.
  It is a complete \<^verbatim>\<open>do { ... } while (0)\<close> statement whose \<^verbatim>\<open>return\<close> names
  the \<^verbatim>\<open>absl::Status\<close> itself, so nothing can follow it. At the failure
  \<open>NOT_FOUND: x\<close> it returns \<open>NOT_FOUND: x\<close> after the evaluation and the test,
  with no builder made, under either expansion of the hint; the documented operation makes
  a builder, and with \<open>while loading x\<close> chained it returns
  \<open>NOT_FOUND: x; while loading x\<close>.
\<close>

theorem short_circuit_makes_no_builder:
  "REVERB_RETURN_IF_ERROR has_builtin (Pair (Error kNotFound ''x'')) ((), [])
     = Return (Error kNotFound ''x'') ((), [Evaluated, CalledOk])
   \<and> BuilderCreated \<notin> set (trace_of (REVERB_RETURN_IF_ERROR has_builtin
        (Pair (Error kNotFound ''x'')) ((), [])))
   \<and> spec_short_circuit [] (Pair (Error kNotFound ''x'')) ((), [])
     = Return (Error kNotFound ''x'') ((), [Evaluated, BuilderCreated])
   \<and> spec_short_circuit [AppendContext ''while loading x''] (Pair (Error kNotFound ''x''))
        ((), [])
     = Return (Error kNotFound ''x; while loading x'') ((), [Evaluated, BuilderCreated])
   \<and> returned (REVERB_RETURN_IF_ERROR has_builtin (Pair (Error kNotFound ''x'')) ((), []))
     \<noteq> returned (spec_short_circuit [AppendContext ''while loading x'']
          (Pair (Error kNotFound ''x'')) ((), []))"
  by (simp add: REVERB_RETURN_IF_ERROR_def spec_short_circuit_def trace_of_def)

text \<open>
  C2. The claim, and the header's own comment on the value extraction ("By default the
  error status is returned unchanged, but it may be modified by an
  \<^verbatim>\<open>error_expression\<close>", with the interface
  \<^verbatim>\<open>REVERB_ASSIGN_OR_RETURN(lhs, rexpr, error_expression)\<close>), have the operation take
  an error expression, evaluate it with the placeholder bound to an Error Builder over the
  failure, and return its result in place of the raw failure. The macro does not do
  this. Its parameters are the name of the temporary, the destination and the fallible
  expression; there is no place for an error expression, and its failure branch is
  \<^verbatim>\<open>return statusor.status()\<close>. At the failure \<open>NOT_FOUND: x\<close> it returns
  \<open>NOT_FOUND: x\<close> with no builder made and the destination as it was, under either
  expansion of the hint; the documented operation with the error expression
  \<^verbatim>\<open>_ << "while processing query"\<close> returns
  \<open>NOT_FOUND: x; while processing query\<close>.
\<close>

theorem value_extraction_evaluates_no_error_expression:
  "REVERB_ASSIGN_OR_RETURN_IMPL has_builtin assign_variable
       (Pair (StatusOrError kNotFound ''x'')) ((7::int), [])
     = Return (Error kNotFound ''x'') (7, [Evaluated, CalledOk, CalledStatus])
   \<and> BuilderCreated \<notin> set (trace_of (REVERB_ASSIGN_OR_RETURN_IMPL has_builtin assign_variable
        (Pair (StatusOrError kNotFound ''x'')) ((7::int), [])))
   \<and> spec_value_extraction (Some (chained [AppendContext ''while processing query'']))
        assign_variable (Pair (StatusOrError kNotFound ''x'')) ((7::int), [])
     = Return (Error kNotFound ''x; while processing query'') (7, [Evaluated, BuilderCreated])
   \<and> returned (REVERB_ASSIGN_OR_RETURN_IMPL has_builtin assign_variable
        (Pair (StatusOrError kNotFound ''x'')) ((7::int), []))
     \<noteq> returned (spec_value_extraction (Some (chained [AppendContext ''while processing query'']))
          assign_variable (Pair (StatusOrError kNotFound ''x'')) ((7::int), []))"
  by (simp add: REVERB_ASSIGN_OR_RETURN_IMPL_def spec_value_extraction_def trace_of_def)

end
